theory Spec2Isabelle
  imports Complex_Main "HOL-Library.Sublist"
begin

section \<open>JavaScript values used by \<^verbatim>\<open>src/index.ts\<close>\<close>

text \<open>
  The program is TypeScript running in a browser. Its numbers are JavaScript numbers,
  that is binary64 values: a finite number is the rational it denotes, next to the
  negative zero, the two infinities and NaN, and every operation that produces a
  number rounds its exact result to the nearest binary64 value, ties to even.
\<close>

datatype jsnum = Fin rat | NZero | PInf | NInf | NaN

text \<open>\<open>Fin 0\<close> is the positive zero and \<open>NZero\<close> the negative one.\<close>

definition signed_zero :: "bool \<Rightarrow> jsnum" where
  "signed_zero neg = (if neg then NZero else Fin 0)"

definition signed_inf :: "bool \<Rightarrow> jsnum" where
  "signed_inf neg = (if neg then NInf else PInf)"

definition signed_fin :: "bool \<Rightarrow> rat \<Rightarrow> jsnum" where
  "signed_fin neg v = (if v = 0 then signed_zero neg else Fin (if neg then - v else v))"

text \<open>
  A value the dynamic evaluator may return: a number, a string, or any other value,
  which the program only ever converts to a string (\<^verbatim>\<open>parseInt\<close> applies
  ToString to its argument). \<open>JOther None\<close> is a value whose conversion to a
  string throws (a Symbol, an object with a throwing \<^verbatim>\<open>toString\<close>).
\<close>

datatype jsval = JNum jsnum | JStr string | JOther "string option"

datatype jsexn = SyntaxError | ReferenceError | TypeError | OtherThrow

subsection \<open>Rounding to binary64\<close>

function bit_length :: "int \<Rightarrow> nat" where
  "bit_length n = (if n < 1 then 0 else Suc (bit_length (n div 2)))"
  by pat_completeness auto
termination
  by (relation "measure nat") auto

declare bit_length.simps [simp del]

definition pow2 :: "int \<Rightarrow> rat" where
  "pow2 i = (if 0 \<le> i then 2 ^ nat i else 1 / 2 ^ nat (- i))"

definition pow10 :: "int \<Rightarrow> rat" where
  "pow10 i = (if 0 \<le> i then 10 ^ nat i else 1 / 10 ^ nat (- i))"

text \<open>The binary exponent \<open>e\<close> of a positive rational: \<open>2^e \<le> a < 2^(e+1)\<close>.\<close>

definition bin_exponent :: "rat \<Rightarrow> int" where
  "bin_exponent a =
     (case quotient_of a of
        (n, d) \<Rightarrow>
          (let e = int (bit_length n) - int (bit_length d)
           in if pow2 e \<le> a then e else e - 1))"

definition round_half_even :: "rat \<Rightarrow> int" where
  "round_half_even q =
     (let f = \<lfloor>q\<rfloor>; r = q - of_int f
      in if r < 1 / 2 then f else if 1 / 2 < r then f + 1
         else if f mod 2 = 0 then f else f + 1)"

text \<open>
  The binary64 value nearest to a rational: 53 significant bits, the least exponent
  \<open>-1022\<close> (below it the numbers are subnormal), an infinity from \<open>2^1024\<close> on. A
  result that rounds to zero keeps the sign.
\<close>

definition round64 :: "rat \<Rightarrow> jsnum" where
  "round64 r =
     (if r = 0 then Fin 0
      else (let a = \<bar>r\<bar>; e = bin_exponent a in
            if 1024 \<le> e then signed_inf (r < 0)
            else (let ulp = pow2 (max e (- 1022) - 52);
                      m = round_half_even (a / ulp)
                  in if e = 1023 \<and> 2 ^ 53 \<le> m then signed_inf (r < 0)
                     else signed_fin (r < 0) (of_int m * ulp))))"

text \<open>The sign change of a number.\<close>

fun js_neg :: "jsnum \<Rightarrow> jsnum" where
  "js_neg (Fin r) = (if r = 0 then NZero else Fin (- r))"
| "js_neg NZero = Fin 0"
| "js_neg PInf = NInf"
| "js_neg NInf = PInf"
| "js_neg NaN = NaN"

subsection \<open>Characters\<close>

definition isDigit :: "char \<Rightarrow> bool" where
  "isDigit c = (48 \<le> (of_char c :: nat) \<and> (of_char c :: nat) \<le> 57)"

definition digit_val :: "char \<Rightarrow> nat" where
  "digit_val c = (of_char c :: nat) - 48"

definition digit_char :: "nat \<Rightarrow> char" where
  "digit_char d = char_of (48 + d mod 10)"

text \<open>
  The white space and line terminators that \<^verbatim>\<open>parseFloat\<close> and \<^verbatim>\<open>parseInt\<close> skip
  at the start of a string, among the code units below 256: tab to carriage return,
  space and the no-break space.
\<close>

definition isWhite :: "char \<Rightarrow> bool" where
  "isWhite c = (let n = (of_char c :: nat) in (9 \<le> n \<and> n \<le> 13) \<or> n = 32 \<or> n = 160)"

definition isHexDigit :: "char \<Rightarrow> bool" where
  "isHexDigit c = (let n = (of_char c :: nat) in
     (48 \<le> n \<and> n \<le> 57) \<or> (65 \<le> n \<and> n \<le> 70) \<or> (97 \<le> n \<and> n \<le> 102))"

definition hex_val :: "char \<Rightarrow> nat" where
  "hex_val c = (let n = (of_char c :: nat) in
     if n \<le> 57 then n - 48 else if n \<le> 70 then n - 55 else n - 87)"

subsection \<open>\<^verbatim>\<open>Number.prototype.toString\<close>\<close>

text \<open>
  ECMAScript's Number::toString for radix 10. The digits are those of the shortest
  decimal that rounds back to the number, the one nearest to it when several of that
  length do; the decimal exponent \<open>n\<close> with \<open>10^(n-1) \<le> x < 10^n\<close> selects plain,
  fractional or exponent notation.
\<close>

function int_digits :: "int \<Rightarrow> nat list" where
  "int_digits n = (if n < 10 then [nat n] else int_digits (n div 10) @ [nat (n mod 10)])"
  by pat_completeness auto
termination
  by (relation "measure nat") auto

declare int_digits.simps [simp del]

fun frac_digits :: "nat \<Rightarrow> rat \<Rightarrow> nat list" where
  "frac_digits 0 f = []"
| "frac_digits (Suc k) f =
     (if f = 0 then []
      else (let d = nat \<lfloor>f * 10\<rfloor> in d # frac_digits k (f * 10 - of_nat d)))"

fun lead_zeros :: "nat \<Rightarrow> rat \<Rightarrow> nat" where
  "lead_zeros 0 r = 0"
| "lead_zeros (Suc k) r = (if r * 10 < 1 then Suc (lead_zeros k (r * 10)) else 0)"

definition strip_zeros :: "nat list \<Rightarrow> nat list" where
  "strip_zeros ds = rev (dropWhile (\<lambda>d. d = 0) (rev ds))"

definition dec_exponent :: "rat \<Rightarrow> int" where
  "dec_exponent r =
     (if 1 \<le> r then int (length (int_digits \<lfloor>r\<rfloor>))
      else - int (lead_zeros 400 r))"

definition sig_digits :: "rat \<Rightarrow> int \<Rightarrow> nat list" where
  "sig_digits r n =
     strip_zeros (frac_digits 17 (if 0 \<le> n then r / 10 ^ nat n else r * 10 ^ nat (- n)))"

text \<open>
  The decimals with \<open>k\<close> significant digits next to \<open>x\<close>, below and above, and the
  one of them that rounds back to \<open>x\<close>, if any.
\<close>

definition candidate :: "rat \<Rightarrow> int \<Rightarrow> nat \<Rightarrow> rat option" where
  "candidate x n k =
     (let sc = pow10 (n - int k); q = x / sc;
          lo = of_int \<lfloor>q\<rfloor> * sc; hi = of_int \<lceil>q\<rceil> * sc;
          oklo = (0 < lo \<and> round64 lo = Fin x); okhi = (round64 hi = Fin x)
      in if oklo \<and> okhi
         then Some (if x - lo < hi - x then lo
                    else if hi - x < x - lo then hi
                    else if \<lfloor>q\<rfloor> mod 2 = 0 then lo else hi)
         else if oklo then Some lo
         else if okhi then Some hi
         else None)"

text \<open>
  The search from \<open>k\<close> digits upward; 17 digits tell any two binary64 values apart.
  For a rational that is no binary64 value the search ends with its 17 digit decimal.
\<close>

fun shortest :: "nat \<Rightarrow> rat \<Rightarrow> int \<Rightarrow> nat \<Rightarrow> rat" where
  "shortest 0 x n k = of_int (round_half_even (x / pow10 (n - 17))) * pow10 (n - 17)"
| "shortest (Suc f) x n k =
     (case candidate x n k of
        Some v \<Rightarrow> v
      | None \<Rightarrow> shortest f x n (Suc k))"

definition shortest_decimal :: "rat \<Rightarrow> rat" where
  "shortest_decimal x = shortest 17 x (dec_exponent x) 1"

definition digits_str :: "nat list \<Rightarrow> string" where
  "digits_str ds = map digit_char ds"

definition pos_toString :: "rat \<Rightarrow> string" where
  "pos_toString x =
     (let r = shortest_decimal x;
          n = dec_exponent r; ds = sig_digits r n; k = int (length ds) in
      if k \<le> n \<and> n \<le> 21 then digits_str ds @ replicate (nat (n - k)) CHR ''0''
      else if 0 < n \<and> n \<le> 21 then
        digits_str (take (nat n) ds) @ ''.'' @ digits_str (drop (nat n) ds)
      else if - 6 < n \<and> n \<le> 0 then
        ''0.'' @ replicate (nat (- n)) CHR ''0'' @ digits_str ds
      else
        (let e = n - 1;
             es = (if 0 \<le> e then ''+'' else ''-'') @ digits_str (int_digits \<bar>e\<bar>)
         in if k = 1 then digits_str ds @ ''e'' @ es
            else digits_str (take 1 ds) @ ''.'' @ digits_str (drop 1 ds) @ ''e'' @ es))"

fun Number_toString :: "jsnum \<Rightarrow> string" where
  "Number_toString NaN = ''NaN''"
| "Number_toString PInf = ''Infinity''"
| "Number_toString NInf = ''-Infinity''"
| "Number_toString NZero = ''0''"
| "Number_toString (Fin r) =
     (if r = 0 then ''0''
      else if r < 0 then ''-'' @ pos_toString (- r)
      else pos_toString r)"

text \<open>ToString of a value, \<open>None\<close> when the conversion throws a TypeError.\<close>

fun ToString :: "jsval \<Rightarrow> string option" where
  "ToString (JNum n) = Some (Number_toString n)"
| "ToString (JStr s) = Some s"
| "ToString (JOther r) = r"

subsection \<open>\<^verbatim>\<open>parseFloat\<close> and \<^verbatim>\<open>parseInt\<close>\<close>

definition digits_value :: "string \<Rightarrow> int" where
  "digits_value ds = foldl (\<lambda>a c. 10 * a + int (digit_val c)) 0 ds"

definition hex_value :: "string \<Rightarrow> int" where
  "hex_value ds = foldl (\<lambda>a c. 16 * a + int (hex_val c)) 0 ds"

text \<open>
  The exponent part of a decimal literal, \<^verbatim>\<open>e\<close> or \<^verbatim>\<open>E\<close>, an optional sign and
  at least one digit: the exponent and the rest, or \<open>None\<close> when there is none.
\<close>

definition scan_exponent :: "string \<Rightarrow> (int \<times> string) option" where
  "scan_exponent s =
     (case s of
        [] \<Rightarrow> None
      | c # r \<Rightarrow>
          if c = CHR ''e'' \<or> c = CHR ''E'' then
            (let (neg, u) =
                   (case r of
                      [] \<Rightarrow> (False, r)
                    | d # r' \<Rightarrow>
                        if d = CHR ''-'' then (True, r')
                        else if d = CHR ''+'' then (False, r') else (False, r));
                 ds = takeWhile isDigit u
             in if ds = [] then None
                else Some (if neg then - digits_value ds else digits_value ds,
                           dropWhile isDigit u))
          else None)"

text \<open>
  An unsigned decimal literal at the start of a string: digits, an optional fraction
  and an optional exponent; its value and the rest of the string.
\<close>

definition scan_decimal :: "string \<Rightarrow> (rat \<times> string) option" where
  "scan_decimal s =
     (let ip = takeWhile isDigit s; r1 = dropWhile isDigit s;
          (fp, r2) =
            (case r1 of
               [] \<Rightarrow> ([], r1)
             | c # r \<Rightarrow>
                 if c = CHR ''.'' \<and> (ip \<noteq> [] \<or> takeWhile isDigit r \<noteq> [])
                 then (takeWhile isDigit r, dropWhile isDigit r)
                 else ([], r1))
      in if ip = [] \<and> fp = [] then None
         else
           (let m = of_int (digits_value ip) + of_int (digits_value fp) / 10 ^ length fp
            in case scan_exponent r2 of
                 None \<Rightarrow> Some (m, r2)
               | Some (e, r3) \<Rightarrow>
                   Some (if 0 \<le> e then m * 10 ^ nat e else m / 10 ^ nat (- e), r3)))"

definition split_sign :: "string \<Rightarrow> bool \<times> string" where
  "split_sign t =
     (case t of
        [] \<Rightarrow> (False, t)
      | c # r \<Rightarrow>
          if c = CHR ''-'' then (True, r)
          else if c = CHR ''+'' then (False, r) else (False, t))"

definition parseFloat :: "string \<Rightarrow> jsnum" where
  "parseFloat s =
     (let (neg, u) = split_sign (dropWhile isWhite s)
      in if prefix ''Infinity'' u then signed_inf neg
         else case scan_decimal u of
                None \<Rightarrow> NaN
              | Some (v, _) \<Rightarrow> (if neg then js_neg (round64 v) else round64 v))"

text \<open>\<^verbatim>\<open>parseInt\<close> of a string, with no radix argument: \<^verbatim>\<open>0x\<close> selects radix 16.\<close>

definition parseInt_string :: "string \<Rightarrow> jsnum" where
  "parseInt_string s =
     (let (neg, u) = split_sign (dropWhile isWhite s)
      in if prefix ''0x'' u \<or> prefix ''0X'' u then
           (let ds = takeWhile isHexDigit (drop 2 u)
            in if ds = [] then NaN
               else (let n = round64 (of_int (hex_value ds))
                     in if neg then js_neg n else n))
         else
           (let ds = takeWhile isDigit u
            in if ds = [] then NaN
               else (let n = round64 (of_int (digits_value ds))
                     in if neg then js_neg n else n)))"

text \<open>\<^verbatim>\<open>parseInt(v)\<close> for any value: ToString first, which may throw.\<close>

definition parseInt :: "jsval \<Rightarrow> jsexn + jsnum" where
  "parseInt v =
     (case ToString v of
        None \<Rightarrow> Inl TypeError
      | Some s \<Rightarrow> Inr (parseInt_string s))"

subsection \<open>String operations\<close>

text \<open>
  \<^verbatim>\<open>s.replace(/pat/g, rep)\<close> for a pattern of literal characters and a replacement
  without \<^verbatim>\<open>$\<close>: every leftmost, non-overlapping occurrence is replaced.
\<close>

fun replaceAll :: "string \<Rightarrow> string \<Rightarrow> string \<Rightarrow> string" where
  "replaceAll pat rep [] = []"
| "replaceAll pat rep (c # cs) =
     (if pat \<noteq> [] \<and> prefix pat (c # cs)
      then rep @ replaceAll pat rep (drop (length pat - 1) cs)
      else c # replaceAll pat rep cs)"

definition includes_char :: "string \<Rightarrow> char \<Rightarrow> bool" where
  "includes_char s c = (c \<in> set s)"

text \<open>\<^verbatim>\<open>s.match(/[+\-*/]/)\<close> is truthy when some character is one of the four.\<close>

definition match_operator :: "string \<Rightarrow> bool" where
  "match_operator s = (\<exists>c \<in> set s. c \<in> set ''+-*/'')"

fun join :: "string \<Rightarrow> string list \<Rightarrow> string" where
  "join sep [] = []"
| "join sep [x] = x"
| "join sep (x # y # ys) = x @ sep @ join sep (y # ys)"


text \<open>
  \<^verbatim>\<open>expr.replace(/([\d.]+)%/g, (_, num) => `(${parseFloat(num)} / 100)`)\<close>: a
  maximal run of digits and dots that a percent sign follows is replaced; a run that
  no percent sign follows stays.
\<close>

definition isNumChar :: "char \<Rightarrow> bool" where
  "isNumChar c = (isDigit c \<or> c = CHR ''.'')"

function rewritePercent :: "string \<Rightarrow> string" where
  "rewritePercent [] = []"
| "rewritePercent (c # cs) =
     (if isNumChar c then
        (let run = c # takeWhile isNumChar cs in
         case dropWhile isNumChar cs of
           [] \<Rightarrow> run
         | d # rest \<Rightarrow>
             if d = CHR ''%''
             then ''('' @ Number_toString (parseFloat run) @ '' / 100)'' @ rewritePercent rest
             else run @ d # rewritePercent rest)
      else c # rewritePercent cs)"
  by pat_completeness auto
termination
proof (relation "measure length", goal_cases)
  case 1
  show ?case by simp
next
  case (2 c cs run d rest)
  have "length (dropWhile isNumChar cs) \<le> length cs"
    by (rule length_dropWhile_le)
  with 2 show ?case by simp
next
  case (3 c cs run d rest)
  have "length (dropWhile isNumChar cs) \<le> length cs"
    by (rule length_dropWhile_le)
  with 3 show ?case by simp
next
  case (4 c cs)
  show ?case by simp
qed

section \<open>The path description and its compilation\<close>

text \<open>
  The type \<^verbatim>\<open>Paths\<close>: a list of path records, each with an optional name, an
  optional visibility flag, a style and the list of commands. \<^verbatim>\<open>createSvgPaths\<close>
  returns the same records with \<^verbatim>\<open>path\<close> replaced by the compiled string, so the
  record is polymorphic in that field.
\<close>

datatype cmd = M | L

record style_rec =
  strokeWidth :: string
  stroke :: string
  fill :: string

record 'p path_rec =
  name :: "string option"
  shown :: "bool option"
  style :: style_rec
  path :: 'p

type_synonym command = "cmd \<times> string \<times> string"
type_synonym Paths = "command list path_rec list"
type_synonym CompiledPaths = "string path_rec list"

fun cmd_str :: "cmd \<Rightarrow> string" where
  "cmd_str M = ''M''"
| "cmd_str L = ''L''"

subsection \<open>The dynamic evaluator\<close>

text \<open>
  \<^verbatim>\<open>Function(src)()\<close> hands the source text to the host's JavaScript engine. The
  engine is a parameter of the model: it maps the source and the global state to
  what the call throws or returns, and the global state after the call. A call that
  does not return is outside the model.
\<close>

type_synonym globals = "string \<Rightarrow> jsval option"
type_synonym evaluator = "string \<Rightarrow> globals \<Rightarrow> (jsexn + jsval) \<times> globals"

definition function_body :: "string \<Rightarrow> string" where
  "function_body replaced =
     [CHR 0x22] @ ''use strict'' @ [CHR 0x22] @ ''; return ('' @ replaced @ '');''"

text \<open>The constant \<^verbatim>\<open>replaced\<close> of \<^verbatim>\<open>evalExpression\<close>.\<close>

definition replaced :: "string \<Rightarrow> jsnum \<Rightarrow> jsnum \<Rightarrow> string" where
  "replaced expr width height =
     replaceAll ''100'' ''100''
       (replaceAll ''height'' (Number_toString height)
         (replaceAll ''width'' (Number_toString width)
           (rewritePercent expr)))"

definition evalExpression ::
  "evaluator \<Rightarrow> string \<Rightarrow> jsnum \<Rightarrow> jsnum \<Rightarrow> globals \<Rightarrow> jsval \<times> globals" where
  "evalExpression Fn expr width height g =
     (case Fn (function_body (replaced expr width height)) g of
        (Inl e, g') \<Rightarrow> (JNum (Fin 0), g')
      | (Inr v, g') \<Rightarrow> (v, g'))"

subsection \<open>\<^verbatim>\<open>createSvgPaths\<close>\<close>

definition needs_eval :: "string \<Rightarrow> bool" where
  "needs_eval x = (includes_char x CHR ''%'' \<or> match_operator x)"

text \<open>
  \<^verbatim>\<open>parsedX\<close> and \<^verbatim>\<open>parsedY\<close>: \<open>axis\<close> is \<^verbatim>\<open>width\<close> for the x operand and
  \<^verbatim>\<open>height\<close> for the y operand.
\<close>

definition parsed ::
  "evaluator \<Rightarrow> string \<Rightarrow> string \<Rightarrow> jsnum \<Rightarrow> jsnum \<Rightarrow> globals \<Rightarrow> jsval \<times> globals" where
  "parsed Fn axis x width height g =
     (if needs_eval x
      then evalExpression Fn (replaceAll ''%'' (''* '' @ axis @ '' / 100'') x) width height g
      else (JStr x, g))"

text \<open>\<^verbatim>\<open>typeof parsedX === "string" ? parseFloat(parsedX) : parsedX\<close>\<close>

fun num_of :: "jsval \<Rightarrow> jsval" where
  "num_of (JStr s) = JNum (parseFloat s)"
| "num_of v = v"

text \<open>\<^verbatim>\<open>parseInt(numX)\<close>: the integer coordinate, or the exception of ToString.\<close>

definition coord :: "jsval \<Rightarrow> jsexn + jsnum" where
  "coord v = parseInt (num_of v)"

definition compile_command ::
  "evaluator \<Rightarrow> jsnum \<Rightarrow> jsnum \<Rightarrow> command \<Rightarrow> globals \<Rightarrow> (jsexn + string) \<times> globals" where
  "compile_command Fn width height c g =
     (case c of (cmd, x, y) \<Rightarrow>
        (let (parsedX, g1) = parsed Fn ''width'' x width height g;
             (parsedY, g2) = parsed Fn ''height'' y width height g1
         in case coord parsedX of
              Inl e \<Rightarrow> (Inl e, g2)
            | Inr px \<Rightarrow>
                (case coord parsedY of
                   Inl e \<Rightarrow> (Inl e, g2)
                 | Inr py \<Rightarrow>
                     (Inr (cmd_str cmd @ '' '' @ Number_toString px @ '','' @
                           Number_toString py), g2))))"

text \<open>
  \<^verbatim>\<open>path.path.map(...)\<close>: the commands in order, the global state threaded through;
  an exception ends the map.
\<close>

fun compile_commands ::
  "evaluator \<Rightarrow> jsnum \<Rightarrow> jsnum \<Rightarrow> command list \<Rightarrow> globals
     \<Rightarrow> (jsexn + string list) \<times> globals" where
  "compile_commands Fn width height [] g = (Inr [], g)"
| "compile_commands Fn width height (c # cs) g =
     (case compile_command Fn width height c g of
        (Inl e, g') \<Rightarrow> (Inl e, g')
      | (Inr s, g') \<Rightarrow>
          (case compile_commands Fn width height cs g' of
             (Inl e, g'') \<Rightarrow> (Inl e, g'')
           | (Inr ss, g'') \<Rightarrow> (Inr (s # ss), g'')))"

fun createSvgPaths ::
  "evaluator \<Rightarrow> Paths \<Rightarrow> jsnum \<Rightarrow> jsnum \<Rightarrow> globals \<Rightarrow> (jsexn + CompiledPaths) \<times> globals" where
  "createSvgPaths Fn [] width height g = (Inr [], g)"
| "createSvgPaths Fn (p # ps) width height g =
     (case compile_commands Fn width height (path p) g of
        (Inl e, g') \<Rightarrow> (Inl e, g')
      | (Inr ss, g') \<Rightarrow>
          (case createSvgPaths Fn ps width height g' of
             (Inl e, g'') \<Rightarrow> (Inl e, g'')
           | (Inr qs, g'') \<Rightarrow>
               (Inr (\<lparr>name = name p, shown = shown p, style = style p,
                       path = join '' '' ss\<rparr> # qs), g'')))"


section \<open>A reference semantics for the arithmetic the evaluator is given\<close>

text \<open>
  What a JavaScript engine does with the function body \<^verbatim>\<open>"use strict"; return (E);\<close>
  when the spliced text is arithmetic: numeric literals, global identifiers, the
  operators \<^verbatim>\<open>+ - * /\<close> (binary, and \<^verbatim>\<open>+ -\<close> as prefix), parentheses and
  blanks. The semantics is partial: \<open>None\<close> stands for a source outside this
  fragment (any other character, among them the line terminators, after which a
  semicolon may be inserted; reserved words and the constants of the global object,
  calls, comments, regular expression literals, \<^verbatim>\<open>**\<close>, \<^verbatim>\<open>++\<close>, \<^verbatim>\<open>--\<close>, a
  second statement) and for an identifier bound to something that is not a number;
  nothing is said about those.
\<close>

subsection \<open>Arithmetic on numbers\<close>

definition is_zero :: "jsnum \<Rightarrow> bool" where
  "is_zero a = (a = Fin 0 \<or> a = NZero)"

definition is_inf :: "jsnum \<Rightarrow> bool" where
  "is_inf a = (a = PInf \<or> a = NInf)"

fun sign_bit :: "jsnum \<Rightarrow> bool" where
  "sign_bit (Fin r) = (r < 0)"
| "sign_bit NZero = True"
| "sign_bit NInf = True"
| "sign_bit PInf = False"
| "sign_bit NaN = False"

fun fin_val :: "jsnum \<Rightarrow> rat" where
  "fin_val (Fin r) = r"
| "fin_val _ = 0"

definition js_add :: "jsnum \<Rightarrow> jsnum \<Rightarrow> jsnum" where
  "js_add a b =
     (if a = NaN \<or> b = NaN then NaN
      else if is_inf a then (if is_inf b \<and> a \<noteq> b then NaN else a)
      else if is_inf b then b
      else if a = NZero then b
      else if b = NZero then a
      else round64 (fin_val a + fin_val b))"

definition js_sub :: "jsnum \<Rightarrow> jsnum \<Rightarrow> jsnum" where
  "js_sub a b = js_add a (js_neg b)"

definition js_mul :: "jsnum \<Rightarrow> jsnum \<Rightarrow> jsnum" where
  "js_mul a b =
     (if a = NaN \<or> b = NaN then NaN
      else (let neg = (sign_bit a \<noteq> sign_bit b) in
        if is_inf a \<or> is_inf b
        then (if is_zero a \<or> is_zero b then NaN else signed_inf neg)
        else if is_zero a \<or> is_zero b then signed_zero neg
        else round64 (fin_val a * fin_val b)))"

definition js_div :: "jsnum \<Rightarrow> jsnum \<Rightarrow> jsnum" where
  "js_div a b =
     (if a = NaN \<or> b = NaN then NaN
      else (let neg = (sign_bit a \<noteq> sign_bit b) in
        if is_inf a then (if is_inf b then NaN else signed_inf neg)
        else if is_inf b then signed_zero neg
        else if is_zero b then (if is_zero a then NaN else signed_inf neg)
        else if is_zero a then signed_zero neg
        else round64 (fin_val a / fin_val b)))"

subsection \<open>Tokens\<close>

datatype token =
  TNum rat | TBad | TId string | TPlus | TMinus | TTimes | TDiv | TLParen | TRParen | TSemi

definition isIdStart :: "char \<Rightarrow> bool" where
  "isIdStart c = (let n = (of_char c :: nat) in
     (65 \<le> n \<and> n \<le> 90) \<or> (97 \<le> n \<and> n \<le> 122) \<or> n = 95 \<or> n = 36)"

definition isIdPart :: "char \<Rightarrow> bool" where
  "isIdPart c = (isIdStart c \<or> isDigit c)"

text \<open>
  The words that are no plain global identifier in the body of a strict function:
  the reserved words, the contextual keywords, and \<^verbatim>\<open>Infinity\<close>, \<^verbatim>\<open>NaN\<close> and
  \<^verbatim>\<open>undefined\<close>, which the global object binds for good.
\<close>

definition reserved_words :: "string list" where
  "reserved_words =
     [''Infinity'', ''NaN'', ''arguments'', ''async'', ''await'', ''break'', ''case'', ''catch'', ''class'',
      ''const'', ''continue'', ''debugger'', ''default'', ''delete'', ''do'', ''else'',
      ''enum'', ''eval'', ''export'', ''extends'', ''false'', ''finally'', ''for'',
      ''function'', ''if'', ''implements'', ''import'', ''in'', ''instanceof'',
      ''interface'', ''let'', ''new'', ''null'', ''of'', ''package'', ''private'',
      ''protected'', ''public'', ''return'', ''static'', ''super'', ''switch'', ''this'',
      ''throw'', ''true'', ''try'', ''typeof'', ''undefined'', ''var'', ''void'', ''while'',
      ''with'', ''yield'']"

definition starts_with :: "(char \<Rightarrow> bool) \<Rightarrow> string \<Rightarrow> bool" where
  "starts_with P s = (case s of [] \<Rightarrow> False | c # _ \<Rightarrow> P c)"

definition cons_token :: "token \<Rightarrow> token list option \<Rightarrow> token list option" where
  "cons_token t r = (case r of None \<Rightarrow> None | Some ts \<Rightarrow> Some (t # ts))"

text \<open>
  The blanks inside a line: tab, vertical tab, form feed and space. A line feed or a
  carriage return ends a line and is not one of them.
\<close>

definition isBlank :: "char \<Rightarrow> bool" where
  "isBlank c = (let n = (of_char c :: nat) in n = 9 \<or> n = 11 \<or> n = 12 \<or> n = 32)"

text \<open>
  The tokens of a source text, \<open>None\<close> when it leaves the fragment. A decimal
  literal with a leading zero before further digits is an error in strict mode: the
  token \<open>TBad\<close>. The first argument bounds the number of tokens and blanks; the
  length of the text is enough.
\<close>

fun lex :: "nat \<Rightarrow> string \<Rightarrow> token list option" where
  "lex 0 s = (if s = [] then Some [] else None)"
| "lex (Suc n) [] = Some []"
| "lex (Suc n) (c # cs) =
     (if isBlank c then lex n cs
      else if isDigit c \<or> (c = CHR ''.'' \<and> starts_with isDigit cs) then
        (case scan_decimal (c # cs) of
           None \<Rightarrow> None
         | Some (v, rest) \<Rightarrow>
             if starts_with isIdStart rest then None
             else if c = CHR ''0'' \<and> starts_with isDigit cs then cons_token TBad (lex n rest)
             else cons_token (TNum v) (lex n rest))
      else if isIdStart c then
        (let x = c # takeWhile isIdPart cs in
         if x \<in> set reserved_words then None
         else cons_token (TId x) (lex n (dropWhile isIdPart cs)))
      else if c = CHR ''+'' then
        (if starts_with (\<lambda>d. d = CHR ''+'') cs then None else cons_token TPlus (lex n cs))
      else if c = CHR ''-'' then
        (if starts_with (\<lambda>d. d = CHR ''-'') cs then None else cons_token TMinus (lex n cs))
      else if c = CHR ''*'' then
        (if starts_with (\<lambda>d. d = CHR ''*'') cs then None else cons_token TTimes (lex n cs))
      else if c = CHR ''/'' then
        (if starts_with (\<lambda>d. d = CHR ''/'' \<or> d = CHR ''*'') cs then None
         else cons_token TDiv (lex n cs))
      else if c = CHR ''('' then cons_token TLParen (lex n cs)
      else if c = CHR '')'' then cons_token TRParen (lex n cs)
      else if c = CHR '';'' then cons_token TSemi (lex n cs)
      else None)"

subsection \<open>Expressions\<close>

datatype binop = Add | Sub | Mul | Div

datatype expr = Num rat | Var string | Neg expr | Pos expr | Bin binop expr expr

datatype opr = OBin binop | ONeg | OPos | OParen

datatype 'a parse = Parsed 'a | Syntax | Unsupported

fun prec :: "opr \<Rightarrow> nat" where
  "prec (OBin Add) = 1"
| "prec (OBin Sub) = 1"
| "prec (OBin Mul) = 2"
| "prec (OBin Div) = 2"
| "prec ONeg = 3"
| "prec OPos = 3"
| "prec OParen = 0"

fun apply_op :: "opr \<Rightarrow> expr list \<Rightarrow> expr list option" where
  "apply_op (OBin b) (r # l # out) = Some (Bin b l r # out)"
| "apply_op ONeg (e # out) = Some (Neg e # out)"
| "apply_op OPos (e # out) = Some (Pos e # out)"
| "apply_op _ _ = None"

text \<open>
  Operators on the stack are applied while they bind at least as tightly as \<open>p\<close>, down
  to the innermost open parenthesis.
\<close>

fun reduce :: "nat \<Rightarrow> opr list \<Rightarrow> expr list \<Rightarrow> (opr list \<times> expr list) option" where
  "reduce p [] out = Some ([], out)"
| "reduce p (OParen # ops) out = Some (OParen # ops, out)"
| "reduce p (o1 # ops) out =
     (if p \<le> prec o1
      then (case apply_op o1 out of None \<Rightarrow> None | Some out' \<Rightarrow> reduce p ops out')
      else Some (o1 # ops, out))"

text \<open>
  Operator-precedence parsing of the tokens of one expression; \<open>operand\<close> says whether
  an operand is expected next. \<open>Syntax\<close> is a source no engine accepts; a call and a
  slash where an operand is expected (a regular expression literal) leave the
  fragment.
\<close>

fun shunt :: "token list \<Rightarrow> bool \<Rightarrow> opr list \<Rightarrow> expr list \<Rightarrow> expr parse" where
  "shunt [] operand ops out =
     (if operand then Syntax
      else case reduce 0 ops out of
             Some ([], [e]) \<Rightarrow> Parsed e
           | _ \<Rightarrow> Syntax)"
| "shunt (TNum v # ts) operand ops out =
     (if operand then shunt ts False ops (Num v # out) else Syntax)"
| "shunt (TId x # ts) operand ops out =
     (if operand then shunt ts False ops (Var x # out) else Syntax)"
| "shunt (TBad # ts) operand ops out = Syntax"
| "shunt (TSemi # ts) operand ops out = Unsupported"
| "shunt (TLParen # ts) operand ops out =
     (if operand then shunt ts True (OParen # ops) out else Unsupported)"
| "shunt (TRParen # ts) operand ops out =
     (if operand then Syntax
      else case reduce 0 ops out of
             Some (OParen # ops', out') \<Rightarrow> shunt ts False ops' out'
           | _ \<Rightarrow> Syntax)"
| "shunt (TPlus # ts) operand ops out =
     (if operand then shunt ts True (OPos # ops) out
      else case reduce 1 ops out of
             Some (ops', out') \<Rightarrow> shunt ts True (OBin Add # ops') out'
           | None \<Rightarrow> Syntax)"
| "shunt (TMinus # ts) operand ops out =
     (if operand then shunt ts True (ONeg # ops) out
      else case reduce 1 ops out of
             Some (ops', out') \<Rightarrow> shunt ts True (OBin Sub # ops') out'
           | None \<Rightarrow> Syntax)"
| "shunt (TTimes # ts) operand ops out =
     (if operand then Syntax
      else case reduce 2 ops out of
             Some (ops', out') \<Rightarrow> shunt ts True (OBin Mul # ops') out'
           | None \<Rightarrow> Syntax)"
| "shunt (TDiv # ts) operand ops out =
     (if operand then Unsupported
      else case reduce 2 ops out of
             Some (ops', out') \<Rightarrow> shunt ts True (OBin Div # ops') out'
           | None \<Rightarrow> Syntax)"

subsection \<open>Evaluation\<close>

datatype outcome = Val jsnum | Throw jsexn | Unsup

fun binop_apply :: "binop \<Rightarrow> jsnum \<Rightarrow> jsnum \<Rightarrow> jsnum" where
  "binop_apply Add a b = js_add a b"
| "binop_apply Sub a b = js_sub a b"
| "binop_apply Mul a b = js_mul a b"
| "binop_apply Div a b = js_div a b"

text \<open>
  The value of a literal is the binary64 value nearest to its decimal. An identifier
  is looked up in the global state: a ReferenceError when it is not bound. The
  operands of a binary operator are evaluated left to right.
\<close>

fun eval :: "globals \<Rightarrow> expr \<Rightarrow> outcome" where
  "eval g (Num r) = Val (round64 r)"
| "eval g (Var x) =
     (case g x of
        None \<Rightarrow> Throw ReferenceError
      | Some (JNum n) \<Rightarrow> Val n
      | Some _ \<Rightarrow> Unsup)"
| "eval g (Neg e) = (case eval g e of Val n \<Rightarrow> Val (js_neg n) | r \<Rightarrow> r)"
| "eval g (Pos e) = eval g e"
| "eval g (Bin b l r) =
     (case eval g l of
        Val a \<Rightarrow> (case eval g r of Val c \<Rightarrow> Val (binop_apply b a c) | q \<Rightarrow> q)
      | q \<Rightarrow> q)"

text \<open>The identifiers of an expression, each a read of the global state.\<close>

fun idents :: "expr \<Rightarrow> string list" where
  "idents (Num r) = []"
| "idents (Var x) = [x]"
| "idents (Neg e) = idents e"
| "idents (Pos e) = idents e"
| "idents (Bin b l r) = idents l @ idents r"

definition body_header :: string where
  "body_header = [CHR 0x22] @ ''use strict'' @ [CHR 0x22] @ ''; return ''"

text \<open>
  The function body is the header, one expression and the closing semicolon; the
  parentheses of the template are part of the expression, since the spliced text may
  close and reopen them.
\<close>

definition parse_body :: "string \<Rightarrow> expr parse" where
  "parse_body src =
     (if \<not> prefix body_header src then Unsupported
      else case lex (Suc (length src)) (drop (length body_header) src) of
             None \<Rightarrow> Unsupported
           | Some ts \<Rightarrow>
               if ts = [] \<or> last ts \<noteq> TSemi then Unsupported
               else shunt (butlast ts) True [] [])"

definition arith_Function ::
  "string \<Rightarrow> globals \<Rightarrow> ((jsexn + jsval) \<times> globals) option" where
  "arith_Function src g =
     (case parse_body src of
        Unsupported \<Rightarrow> None
      | Syntax \<Rightarrow> Some (Inl SyntaxError, g)
      | Parsed e \<Rightarrow>
          (case eval g e of
             Unsup \<Rightarrow> None
           | Throw x \<Rightarrow> Some (Inl x, g)
           | Val n \<Rightarrow> Some (Inr (JNum n), g)))"

text \<open>An evaluator agrees with the reference semantics wherever that is defined.\<close>

definition agrees :: "evaluator \<Rightarrow> bool" where
  "agrees Fn = (\<forall>src g r. arith_Function src g = Some r \<longrightarrow> Fn src g = r)"

text \<open>
  The smallest such evaluator, for running the model: it throws on every source the
  reference semantics leaves open.
\<close>

definition arith_host :: evaluator where
  "arith_host src g =
     (case arith_Function src g of Some r \<Rightarrow> r | None \<Rightarrow> (Inl OtherThrow, g))"


section \<open>The renderer and its scheduling\<close>

text \<open>
  The SVG element \<^verbatim>\<open>el\<close>: the two data attributes that hold the last applied
  dimensions, the \<^verbatim>\<open>viewBox\<close> attribute and the \<^verbatim>\<open>path\<close> children.
  \<open>commits\<close> is a ghost counter: the number of times \<^verbatim>\<open>createSvgElement\<close> went
  past its dimension check, cleared the children and called \<^verbatim>\<open>createSvgPaths\<close>.
  The backdrop mask of \<^verbatim>\<open>enableBackdropBlur\<close> is built on a sibling element and
  reads the element only; it is left out.
\<close>

record path_element =
  attr_d :: string
  style_fill :: string
  style_stroke :: string
  style_strokeWidth :: string
  style_vectorEffect :: string
  style_shapeRendering :: string

record element =
  data_width :: "string option"
  data_height :: "string option"
  viewBox :: "string option"
  children :: "path_element list"
  commits :: nat

definition new_element :: element where
  "new_element =
     \<lparr>data_width = None, data_height = None, viewBox = None, children = [], commits = 0\<rparr>"

definition pathElement :: "string path_rec \<Rightarrow> path_element" where
  "pathElement p =
     \<lparr>attr_d = path p, style_fill = fill (style p), style_stroke = stroke (style p),
      style_strokeWidth = strokeWidth (style p),
      style_vectorEffect = ''non-scaling-stroke'',
      style_shapeRendering = ''geometricPrecision''\<rparr>"

text \<open>The arguments of \<^verbatim>\<open>setupSvgRenderer\<close> that stay fixed, and the engine.\<close>

record config =
  engine :: evaluator
  paths :: Paths
  enableViewBox :: bool

text \<open>
  \<^verbatim>\<open>createSvgElement\<close> returns the exception that left it, if any, the element and
  the global state. \<^verbatim>\<open>prevWidth != width.toString()\<close> compares an attribute, which
  is a string or null, with a string.
\<close>

definition createSvgElement ::
  "config \<Rightarrow> jsnum \<Rightarrow> jsnum \<Rightarrow> element \<Rightarrow> globals \<Rightarrow> jsexn option \<times> element \<times> globals" where
  "createSvgElement cfg width height e g =
     (if data_width e \<noteq> Some (Number_toString width) \<or>
         data_height e \<noteq> Some (Number_toString height)
      then
        (let e1 = e\<lparr>data_width := Some (Number_toString width),
                    data_height := Some (Number_toString height),
                    children := [],
                    viewBox :=
                      (if enableViewBox cfg
                       then Some (''0 0 '' @ Number_toString width @ '' '' @
                                  Number_toString height)
                       else viewBox e),
                    commits := Suc (commits e)\<rparr>
         in case createSvgPaths (engine cfg) (paths cfg) width height g of
              (Inl x, g') \<Rightarrow> (Some x, e1, g')
            | (Inr ps, g') \<Rightarrow> (None, e1\<lparr>children := map pathElement ps\<rparr>, g'))
      else (None, e, g))"

text \<open>
  The state of one session on an element. \<open>el_box\<close> and \<open>parent_box\<close> are what
  \<^verbatim>\<open>getBoundingClientRect\<close> returns for the element and for \<^verbatim>\<open>parentElement\<close>
  (the element itself when no ancestor qualifies). Each \<^verbatim>\<open>transitionstart\<close> or
  \<^verbatim>\<open>animationstart\<close> event creates a closure with its own variable
  \<^verbatim>\<open>running\<close>: \<open>running\<close> lists these variables, a loop is its index.
  \<open>frames\<close> is the queue of \<^verbatim>\<open>requestAnimationFrame\<close> callbacks, and the two
  lists of listeners hold the loops whose \<^verbatim>\<open>{ once: true }\<close> listener waits for
  the end event.
\<close>

record world =
  el :: element
  globals_of :: globals
  el_box :: "jsnum \<times> jsnum"
  parent_box :: "jsnum \<times> jsnum"
  observing :: bool
  running :: "bool list"
  frames :: "nat list"
  transitionend_once :: "nat list"
  animationend_once :: "nat list"

text \<open>The closure \<^verbatim>\<open>render\<close>, also stored as \<^verbatim>\<open>el.render\<close>.\<close>

definition render :: "config \<Rightarrow> world \<Rightarrow> jsexn option \<times> world" where
  "render cfg w =
     (case createSvgElement cfg (fst (el_box w)) (snd (el_box w)) (el w) (globals_of w) of
        (x, e, g) \<Rightarrow> (x, w\<lparr>el := e, globals_of := g\<rparr>))"

text \<open>
  The function \<^verbatim>\<open>loop\<close> of loop \<open>i\<close>: nothing when its \<^verbatim>\<open>running\<close> is false,
  else a render and a request for the next frame; an exception of the render leaves
  before the request.
\<close>

definition loop :: "config \<Rightarrow> nat \<Rightarrow> world \<Rightarrow> jsexn option \<times> world" where
  "loop cfg i w =
     (if \<not> running w ! i then (None, w)
      else case render cfg w of
             (Some x, w') \<Rightarrow> (Some x, w')
           | (None, w') \<Rightarrow> (None, w'\<lparr>frames := frames w' @ [i]\<rparr>))"

text \<open>The test of the \<^verbatim>\<open>transitionend\<close> and \<^verbatim>\<open>animationend\<close> listeners.\<close>

definition settled :: "world \<Rightarrow> bool" where
  "settled w =
     (Some (Number_toString (fst (parent_box w))) = data_width (el w) \<and>
      Some (Number_toString (snd (parent_box w))) = data_height (el w))"

definition end_listener :: "nat \<Rightarrow> world \<Rightarrow> world" where
  "end_listener i w = (if settled w then w\<lparr>running := (running w)[i := False]\<rparr> else w)"

text \<open>
  The resize observer's callback renders once for each entry; an exception leaves
  the callback.
\<close>

fun render_entries :: "config \<Rightarrow> nat \<Rightarrow> world \<Rightarrow> world" where
  "render_entries cfg 0 w = w"
| "render_entries cfg (Suc n) w =
     (case render cfg w of
        (Some x, w') \<Rightarrow> w'
      | (None, w') \<Rightarrow> render_entries cfg n w')"

text \<open>The callbacks of one animation frame, each called on its own.\<close>

fun run_frames :: "config \<Rightarrow> nat list \<Rightarrow> world \<Rightarrow> world" where
  "run_frames cfg [] w = w"
| "run_frames cfg (i # q) w = run_frames cfg q (snd (loop cfg i w))"

text \<open>
  The handler of \<^verbatim>\<open>transitionstart\<close> and of \<^verbatim>\<open>animationstart\<close>: a new loop, its
  first call, and then the listener for the end event. \<open>listen\<close> adds the loop to
  the listeners of the matching end event.
\<close>

definition start_handler :: "config \<Rightarrow> (nat \<Rightarrow> world \<Rightarrow> world) \<Rightarrow> world \<Rightarrow> world" where
  "start_handler cfg listen w =
     (let i = length (running w);
          w1 = w\<lparr>running := running w @ [True]\<rparr>
      in case loop cfg i w1 of
           (Some x, w2) \<Rightarrow> w2
         | (None, w2) \<Rightarrow> listen i w2)"

datatype event =
    Layout "jsnum \<times> jsnum" "jsnum \<times> jsnum"
  | ResizeObserved nat
  | TransitionStart
  | TransitionEnd
  | AnimationStart
  | AnimationEnd
  | AnimationFrame
  | CallRender
  | Destroy

text \<open>
  One turn of the event loop. \<open>Layout\<close> is the page giving the element and the parent
  new boxes; \<open>ResizeObserved n\<close> is the observer delivering \<open>n\<close> entries, which it
  does only while connected; \<open>CallRender\<close> is a caller invoking \<^verbatim>\<open>el.render()\<close>;
  \<open>Destroy\<close> is \<^verbatim>\<open>destroy()\<close> of the returned handle, that is
  \<^verbatim>\<open>observer.disconnect()\<close>.
\<close>

fun step :: "config \<Rightarrow> event \<Rightarrow> world \<Rightarrow> world" where
  "step cfg (Layout eb pb) w = w\<lparr>el_box := eb, parent_box := pb\<rparr>"
| "step cfg (ResizeObserved n) w = (if observing w then render_entries cfg n w else w)"
| "step cfg TransitionStart w =
     start_handler cfg
       (\<lambda>i v. v\<lparr>transitionend_once := transitionend_once v @ [i]\<rparr>) w"
| "step cfg TransitionEnd w =
     fold end_listener (transitionend_once w) (w\<lparr>transitionend_once := []\<rparr>)"
| "step cfg AnimationStart w =
     start_handler cfg
       (\<lambda>i v. v\<lparr>animationend_once := animationend_once v @ [i]\<rparr>) w"
| "step cfg AnimationEnd w =
     fold end_listener (animationend_once w) (w\<lparr>animationend_once := []\<rparr>)"
| "step cfg AnimationFrame w = run_frames cfg (frames w) (w\<lparr>frames := []\<rparr>)"
| "step cfg CallRender w = snd (render cfg w)"
| "step cfg Destroy w = w\<lparr>observing := False\<rparr>"

fun run :: "config \<Rightarrow> event list \<Rightarrow> world \<Rightarrow> world" where
  "run cfg [] w = w"
| "run cfg (ev # evs) w = run cfg evs (step cfg ev w)"

text \<open>
  \<^verbatim>\<open>setupSvgRenderer\<close> on an element as it is found: the observer is connected, no
  loop exists yet. The object it returns has the one property \<^verbatim>\<open>destroy\<close>.
\<close>

definition setupSvgRenderer ::
  "element \<Rightarrow> globals \<Rightarrow> jsnum \<times> jsnum \<Rightarrow> jsnum \<times> jsnum \<Rightarrow> world" where
  "setupSvgRenderer e g eb pb =
     \<lparr>el = e, globals_of = g, el_box = eb, parent_box = pb, observing = True,
      running = [], frames = [], transitionend_once = [], animationend_once = []\<rparr>"



section \<open>Predicates of the properties\<close>

text \<open>The source text the evaluator is given for an operand that is evaluated.\<close>

definition operand_source :: "string \<Rightarrow> string \<Rightarrow> jsnum \<Rightarrow> jsnum \<Rightarrow> string" where
  "operand_source axis x w h =
     function_body (replaced (replaceAll ''%'' (''* '' @ axis @ '' / 100'') x) w h)"

text \<open>
  An operand that reads no global state: it is not evaluated at all, or its source is
  a syntax error, or it is arithmetic over numeric literals only (after \<^verbatim>\<open>width\<close>
  and \<^verbatim>\<open>height\<close> have been substituted).
\<close>

definition pure_operand :: "string \<Rightarrow> string \<Rightarrow> jsnum \<Rightarrow> jsnum \<Rightarrow> bool" where
  "pure_operand axis x w h =
     (if needs_eval x
      then (case parse_body (operand_source axis x w h) of
              Parsed e \<Rightarrow> idents e = []
            | Syntax \<Rightarrow> True
            | Unsupported \<Rightarrow> False)
      else True)"

definition pure_paths :: "Paths \<Rightarrow> jsnum \<Rightarrow> jsnum \<Rightarrow> bool" where
  "pure_paths ps w h =
     list_all (\<lambda>p. list_all (\<lambda>(c, x, y). pure_operand ''width'' x w h \<and>
                                           pure_operand ''height'' y w h) (path p)) ps"








text \<open>
  An engine for two operands outside the arithmetic fragment, and \<open>arith_host\<close>
  elsewhere. It does what a JavaScript engine does with them. The body
  \<^verbatim>\<open>return (/**/Symbol());\<close> returns a new Symbol, a value whose conversion to a
  string throws. The body \<^verbatim>\<open>return (k++*foo);\<close>, with the global \<^verbatim>\<open>k\<close> a
  number and \<^verbatim>\<open>foo\<close> not bound, adds one to \<^verbatim>\<open>k\<close> and then throws a
  ReferenceError.
\<close>

definition sample_host :: evaluator where
  "sample_host src g =
     (if src = function_body ''/**/Symbol()'' then (Inr (JOther None), g)
      else if src = function_body ''k++*foo'' then
        (case (g ''k'', g ''foo'') of
           (Some (JNum n), None) \<Rightarrow>
             (Inl ReferenceError, g(''k'' \<mapsto> JNum (js_add n (Fin 1))))
         | _ \<Rightarrow> arith_host src g)
      else arith_host src g)"


text \<open>The render cache, the two data attributes, holds the dimensions \<open>d\<close>.\<close>

definition cached :: "world \<Rightarrow> jsnum \<times> jsnum \<Rightarrow> bool" where
  "cached w d =
     (data_width (el w) = Some (Number_toString (fst d)) \<and>
      data_height (el w) = Some (Number_toString (snd d)))"

definition cache_of :: "element \<Rightarrow> string option \<times> string option" where
  "cache_of e = (data_width e, data_height e)"

text \<open>
  From \<open>w\<close> to \<open>w'\<close> the number of commits has not gone down, and if no render was
  committed the cache is the same.
\<close>

definition cache_kept :: "world \<Rightarrow> world \<Rightarrow> bool" where
  "cache_kept w w' =
     (commits (el w) \<le> commits (el w') \<and>
      (commits (el w') = commits (el w) \<longrightarrow> cache_of (el w') = cache_of (el w)))"

text \<open>
  A session for the examples: the path of the end-to-end scenario, on a new element
  whose box is 200 by 100 inside a parent of 400 by 100, and the same with the
  parent's box equal to the element's.
\<close>

definition scenario_config :: config where
  "scenario_config =
     \<lparr>engine = arith_host,
      paths = [\<lparr>name = None, shown = None,
                style = \<lparr>strokeWidth = ''1'', stroke = ''red'', fill = ''none''\<rparr>,
                path = [(M, ''10%'', ''10%''), (L, ''90%'', ''50%'')]\<rparr>],
      enableViewBox = True\<rparr>"

definition scenario_world :: world where
  "scenario_world =
     setupSvgRenderer new_element Map.empty (Fin 200, Fin 100) (Fin 400, Fin 100)"

definition settled_world :: world where
  "settled_world =
     setupSvgRenderer new_element Map.empty (Fin 200, Fin 100) (Fin 200, Fin 100)"



section \<open>Properties of the evaluator and the compiler\<close>

subsection \<open>The reference semantics\<close>

lemma eval_closed: "idents e = [] \<Longrightarrow> eval g e = eval Map.empty e"
  by (induction e) (simp_all cong: outcome.case_cong)

lemma eval_closed_defined: "idents e = [] \<Longrightarrow> eval g e \<noteq> Unsup"
  by (induction e) (auto split: outcome.splits)

lemma agrees_value:
  assumes "agrees Fn" and "parse_body src = Parsed e" and "idents e = []"
    and "eval Map.empty e = Val n"
  shows "Fn src g = (Inr (JNum n), g)"
proof -
  have "eval g e = Val n"
    using assms(4) eval_closed[OF assms(3), of g] by simp
  then have "arith_Function src g = Some (Inr (JNum n), g)"
    using assms(2) by (simp add: arith_Function_def)
  with assms(1) show ?thesis by (simp add: agrees_def)
qed

lemma agrees_arith_host: "agrees arith_host"
  by (simp add: agrees_def arith_host_def)

lemma parsed_value:
  assumes "agrees Fn" and "needs_eval x"
    and "parse_body (function_body
           (replaced (replaceAll ''%'' (''* '' @ axis @ '' / 100'') x) w h)) = Parsed e"
    and "idents e = []" and "eval Map.empty e = Val n"
  shows "parsed Fn axis x w h g = (JNum n, g)"
  using agrees_value[OF assms(1) assms(3) assms(4) assms(5)] assms(2)
  by (simp add: parsed_def evalExpression_def)

lemma coord_num: "coord (JNum n) = Inr (parseInt_string (Number_toString n))"
  by (simp add: coord_def parseInt_def)

subsection \<open>The scenario of two commands\<close>

lemma scenario_x1:
  assumes "agrees Fn"
  shows "parsed Fn ''width'' ''10%'' (Fin 200) (Fin 100) g = (JNum (Fin 20), g)"
  by (rule parsed_value[OF assms, where e = "Bin Div (Bin Mul (Num 10) (Num 200)) (Num 100)"]; code_simp)

lemma scenario_y1:
  assumes "agrees Fn"
  shows "parsed Fn ''height'' ''10%'' (Fin 200) (Fin 100) g = (JNum (Fin 10), g)"
  by (rule parsed_value[OF assms, where e = "Bin Div (Bin Mul (Num 10) (Num 100)) (Num 100)"]; code_simp)

lemma scenario_x2:
  assumes "agrees Fn"
  shows "parsed Fn ''width'' ''90%'' (Fin 200) (Fin 100) g = (JNum (Fin 180), g)"
  by (rule parsed_value[OF assms, where e = "Bin Div (Bin Mul (Num 90) (Num 200)) (Num 100)"]; code_simp)

lemma scenario_y2:
  assumes "agrees Fn"
  shows "parsed Fn ''height'' ''50%'' (Fin 200) (Fin 100) g = (JNum (Fin 50), g)"
  by (rule parsed_value[OF assms, where e = "Bin Div (Bin Mul (Num 50) (Num 100)) (Num 100)"]; code_simp)

lemma scenario_coords:
  "coord (JNum (Fin 20)) = Inr (Fin 20)" "coord (JNum (Fin 10)) = Inr (Fin 10)"
  "coord (JNum (Fin 180)) = Inr (Fin 180)" "coord (JNum (Fin 50)) = Inr (Fin 50)"
  by code_simp+

lemma scenario_strings:
  "Number_toString (Fin 20) = ''20''" "Number_toString (Fin 10) = ''10''"
  "Number_toString (Fin 180) = ''180''" "Number_toString (Fin 50) = ''50''"
  by code_simp+

text \<open>
  Claim C5. With dimensions (200, 100) the sub-path
  \<^verbatim>\<open>[["M","10%","10%"], ["L","90%","50%"]]\<close> compiles to \<^verbatim>\<open>M 20,10 L 180,50\<close>:
  the percent sign of an x operand is rewritten with \<^verbatim>\<open>width\<close>, that of a y
  operand with \<^verbatim>\<open>height\<close>, the result is evaluated and cut to an integer. This
  holds with every engine that agrees with the arithmetic semantics, in every global
  state, and the name, visibility and style pass through.
\<close>

theorem C5_scenario_compiles:
  assumes "agrees Fn"
  shows "createSvgPaths Fn
           [\<lparr>name = nm, shown = sh, style = st,
             path = [(M, ''10%'', ''10%''), (L, ''90%'', ''50%'')]\<rparr>]
           (Fin 200) (Fin 100) g =
         (Inr [\<lparr>name = nm, shown = sh, style = st, path = ''M 20,10 L 180,50''\<rparr>], g)"
  by (simp add: compile_command_def scenario_x1[OF assms] scenario_y1[OF assms]
        scenario_x2[OF assms] scenario_y2[OF assms] scenario_coords scenario_strings
        del: Number_toString.simps)

theorem C5_scenario_witness:
  "agrees arith_host \<and>
   createSvgPaths arith_host
     [\<lparr>name = None, shown = None,
       style = \<lparr>strokeWidth = ''1'', stroke = ''red'', fill = ''none''\<rparr>,
       path = [(M, ''10%'', ''10%''), (L, ''90%'', ''50%'')]\<rparr>]
     (Fin 200) (Fin 100) Map.empty =
   (Inr [\<lparr>name = None, shown = None,
          style = \<lparr>strokeWidth = ''1'', stroke = ''red'', fill = ''none''\<rparr>,
          path = ''M 20,10 L 180,50''\<rparr>], Map.empty)"
  using C5_scenario_compiles[OF agrees_arith_host] agrees_arith_host by simp

subsection \<open>Evaluated operands\<close>

lemma parsed_source:
  "parsed Fn axis x w h g =
     (if needs_eval x
      then (case Fn (operand_source axis x w h) g of
              (Inl e, g') \<Rightarrow> (JNum (Fin 0), g')
            | (Inr v, g') \<Rightarrow> (v, g'))
      else (JStr x, g))"
  by (simp add: parsed_def evalExpression_def operand_source_def)

lemma agrees_outcome:
  assumes "agrees Fn" and "parse_body src = Parsed e" and "idents e = []"
  shows "eval Map.empty e = Val n \<Longrightarrow> Fn src g = (Inr (JNum n), g)"
    and "eval Map.empty e = Throw x \<Longrightarrow> Fn src g = (Inl x, g)"
proof -
  have eq: "eval g e = eval Map.empty e" by (rule eval_closed[OF assms(3)])
  show "eval Map.empty e = Val n \<Longrightarrow> Fn src g = (Inr (JNum n), g)"
    using assms(1,2) eq by (simp add: agrees_def arith_Function_def)
  show "eval Map.empty e = Throw x \<Longrightarrow> Fn src g = (Inl x, g)"
    using assms(1,2) eq by (simp add: agrees_def arith_Function_def)
qed

lemma agrees_syntax:
  assumes "agrees Fn" and "parse_body src = Syntax"
  shows "Fn src g = (Inl SyntaxError, g)"
  using assms by (simp add: agrees_def arith_Function_def)

lemma parsed_pure:
  assumes "agrees Fn" and "agrees Fn'" and "pure_operand axis x w h"
  shows "parsed Fn axis x w h g = (fst (parsed Fn' axis x w h g'), g)"
proof (cases "needs_eval x")
  case False
  then show ?thesis by (simp add: parsed_source)
next
  case True
  show ?thesis
  proof (cases "parse_body (operand_source axis x w h)")
    case (Parsed e)
    with assms(3) True have cl: "idents e = []"
      by (simp add: pure_operand_def)
    have df: "eval Map.empty e \<noteq> Unsup"
      by (rule eval_closed_defined[OF cl])
    show ?thesis
    proof (cases "eval Map.empty e")
      case (Val n)
      show ?thesis
        using agrees_outcome(1)[OF assms(1) Parsed cl Val, of g]
              agrees_outcome(1)[OF assms(2) Parsed cl Val, of g'] True
        by (simp add: parsed_source)
    next
      case (Throw t)
      show ?thesis
        using agrees_outcome(2)[OF assms(1) Parsed cl Throw, of g]
              agrees_outcome(2)[OF assms(2) Parsed cl Throw, of g'] True
        by (simp add: parsed_source)
    next
      case Unsup
      with df show ?thesis by simp
    qed
  next
    case Syntax
    show ?thesis
      using agrees_syntax[OF assms(1) Syntax, of g] agrees_syntax[OF assms(2) Syntax, of g'] True
      by (simp add: parsed_source)
  next
    case Unsupported
    with assms(3) True show ?thesis by (simp add: pure_operand_def)
  qed
qed

lemma compile_command_pure:
  assumes "agrees Fn" and "agrees Fn'"
    and "pure_operand ''width'' x w h" and "pure_operand ''height'' y w h"
  shows "compile_command Fn w h (c, x, y) g = (fst (compile_command Fn' w h (c, x, y) g'), g)"
proof -
  obtain vx1 g1 where x1: "parsed Fn' ''width'' x w h g' = (vx1, g1)" by fastforce
  obtain vy1 g2 where y1: "parsed Fn' ''height'' y w h g1 = (vy1, g2)" by fastforce
  have a: "parsed Fn ''width'' x w h g = (vx1, g)"
    using parsed_pure[OF assms(1,2,3), of g g'] x1 by simp
  have b: "parsed Fn ''height'' y w h g = (vy1, g)"
    using parsed_pure[OF assms(1,2,4), of g g1] y1 by simp
  show ?thesis
    by (simp add: compile_command_def a b x1 y1 split: sum.splits)
qed

lemma compile_commands_pure:
  assumes "agrees Fn" and "agrees Fn'"
    and "list_all (\<lambda>(c, x, y). pure_operand ''width'' x w h \<and> pure_operand ''height'' y w h) cs"
  shows "compile_commands Fn w h cs g = (fst (compile_commands Fn' w h cs g'), g)"
  using assms(3)
proof (induction cs arbitrary: g g')
  case Nil
  show ?case by simp
next
  case (Cons k cs)
  obtain c x y where k: "k = (c, x, y)" by (cases k)
  from Cons.prems k have px: "pure_operand ''width'' x w h" and py: "pure_operand ''height'' y w h"
    and rest: "list_all (\<lambda>(c, x, y). pure_operand ''width'' x w h \<and> pure_operand ''height'' y w h) cs"
    by simp_all
  obtain r1 g1 where r1: "compile_command Fn' w h k g' = (r1, g1)" by fastforce
  have a: "compile_command Fn w h k g = (r1, g)"
    using compile_command_pure[OF assms(1,2) px py, of c g g'] r1 k by simp
  obtain r2 g2 where r2: "compile_commands Fn' w h cs g1 = (r2, g2)" by fastforce
  have b: "compile_commands Fn w h cs g = (r2, g)"
    using Cons.IH[OF rest, of g g1] r2 by simp
  show ?case
    by (simp add: a b r1 r2 split: sum.splits)
qed

subsection \<open>Compilation returns\<close>









subsection \<open>Each command from its own operands\<close>





subsection \<open>The exception that can leave the compiler\<close>





subsection \<open>An operand that fails\<close>


lemma string_zero: "Number_toString (Fin 0) = ''0''"
  by simp





lemma sample_host_outside:
  "arith_Function (function_body ''/**/Symbol()'') g = None"
  "arith_Function (function_body ''k++*foo'') g = None"
proof -
  have "parse_body (function_body ''/**/Symbol()'') = Unsupported" by code_simp
  then show "arith_Function (function_body ''/**/Symbol()'') g = None"
    by (simp add: arith_Function_def)
  have "parse_body (function_body ''k++*foo'') = Unsupported" by code_simp
  then show "arith_Function (function_body ''k++*foo'') g = None"
    by (simp add: arith_Function_def)
qed

lemma agrees_sample_host: "agrees sample_host"
  unfolding agrees_def
proof (intro allI impI)
  fix src g r
  assume a: "arith_Function src g = Some r"
  then have "src \<noteq> function_body ''/**/Symbol()''" "src \<noteq> function_body ''k++*foo''"
    using sample_host_outside by auto
  with a show "sample_host src g = r"
    by (simp add: sample_host_def arith_host_def)
qed



subsection \<open>A percentage of the width\<close>

lemma half_width:
  assumes "agrees Fn"
  shows "parsed Fn ''width'' ''50%'' (Fin 200) (Fin 100) g = (JNum (Fin 100), g)"
  by (rule parsed_value[OF assms, where e = "Bin Div (Bin Mul (Num 50) (Num 200)) (Num 100)"];
      code_simp)

lemma literal_zero: "parsed Fn axis ''0'' w h g = (JStr ''0'', g)"
proof -
  have "\<not> needs_eval ''0''" by code_simp
  then show ?thesis by (simp add: parsed_def)
qed

lemma half_width_facts:
  "coord (JStr ''0'') = Inr (Fin 0)"
  "coord (JNum (Fin 100)) = Inr (Fin 100)"
  "Number_toString (Fin 100) = ''100''" "Number_toString (Fin 0) = ''0''"
  by code_simp+

text \<open>
  Claim C6, as amended. For width 200 and height 100 a command whose x operand is
  \<^verbatim>\<open>50%\<close> compiles to the x coordinate 100, which is 50 percent of the width: the
  operand becomes \<^verbatim>\<open>50* width / 100\<close>, then \<^verbatim>\<open>50* 200 / 100\<close>.
\<close>

theorem C6_half_of_width:
  assumes "agrees Fn"
  shows "compile_command Fn (Fin 200) (Fin 100) (c, ''50%'', ''0'') g =
         (Inr (cmd_str c @ '' 100,0''), g)"
  by (simp add: compile_command_def half_width[OF assms] literal_zero half_width_facts
        del: Number_toString.simps)

theorem C6_half_of_width_witness:
  "agrees arith_host \<and>
   compile_command arith_host (Fin 200) (Fin 100) (M, ''50%'', ''0'') Map.empty =
     (Inr ''M 100,0'', Map.empty)"
  using C6_half_of_width[OF agrees_arith_host, of M Map.empty] agrees_arith_host by simp

text \<open>
  The coordinate is not 50: the evaluator is given \<^verbatim>\<open>50* 200 / 100\<close>, on which the
  reference semantics is defined with the value 100.
\<close>

theorem C6_not_fifty_counterexample:
  "operand_source ''width'' ''50%'' (Fin 200) (Fin 100) = function_body ''50* 200 / 100'' \<and>
   map_option fst
     (arith_Function (operand_source ''width'' ''50%'' (Fin 200) (Fin 100)) Map.empty) =
   Some (Inr (JNum (Fin 100))) \<and>
   coord (fst (parsed arith_host ''width'' ''50%'' (Fin 200) (Fin 100) Map.empty)) \<noteq>
   Inr (Fin 50)"
  by code_simp

subsection \<open>Substitution of the two symbols\<close>








subsection \<open>What compilation depends on\<close>

text \<open>
  Claim C8, as amended. The evaluator is the host's and reads the global state. When
  every operand is pure (not evaluated, a syntax error, or arithmetic over numeric
  literals, \<^verbatim>\<open>width\<close> and \<^verbatim>\<open>height\<close>, whatever its value), the compiled
  paths are the same with every engine that agrees with the arithmetic semantics and
  in every global state, and the global state is left as it was.
\<close>

theorem C8_pure_operands:
  assumes "agrees Fn" and "agrees Fn'" and "pure_paths ps w h"
  shows "createSvgPaths Fn ps w h g = (fst (createSvgPaths Fn' ps w h g'), g)"
  using assms(3)
proof (induction ps arbitrary: g g')
  case Nil
  show ?case by simp
next
  case (Cons p ps)
  from Cons.prems have here: "list_all (\<lambda>(c, x, y). pure_operand ''width'' x w h \<and> pure_operand ''height'' y w h) (path p)"
    and rest: "pure_paths ps w h"
    by (simp_all add: pure_paths_def)
  obtain r1 g1 where r1: "compile_commands Fn' w h (path p) g' = (r1, g1)" by fastforce
  have a: "compile_commands Fn w h (path p) g = (r1, g)"
    using compile_commands_pure[OF assms(1,2) here, of g g'] r1 by simp
  obtain r2 g2 where r2: "createSvgPaths Fn' ps w h g1 = (r2, g2)" by fastforce
  have b: "createSvgPaths Fn ps w h g = (r2, g)"
    using Cons.IH[OF rest, of g g1] r2 by simp
  show ?case
    by (simp add: a b r1 r2 split: sum.splits)
qed

theorem C8_pure_operands_witness:
  "pure_paths
     [\<lparr>name = None, shown = None,
       style = \<lparr>strokeWidth = ''1'', stroke = ''red'', fill = ''none''\<rparr>,
       path = [(M, ''width/3'', ''10''), (L, ''10%'', ''height +'')]\<rparr>]
     (Fin 201) (Fin 100) \<and>
   agrees arith_host \<and>
   fst (createSvgPaths arith_host
     [\<lparr>name = None, shown = None,
       style = \<lparr>strokeWidth = ''1'', stroke = ''red'', fill = ''none''\<rparr>,
       path = [(M, ''width/3'', ''10''), (L, ''10%'', ''height +'')]\<rparr>]
     (Fin 201) (Fin 100) (Map.empty(''k'' \<mapsto> JNum (Fin 1)))) =
   fst (createSvgPaths arith_host
     [\<lparr>name = None, shown = None,
       style = \<lparr>strokeWidth = ''1'', stroke = ''red'', fill = ''none''\<rparr>,
       path = [(M, ''width/3'', ''10''), (L, ''10%'', ''height +'')]\<rparr>]
     (Fin 201) (Fin 100) Map.empty)"
proof -
  have p: "pure_paths
     [\<lparr>name = None, shown = None,
       style = \<lparr>strokeWidth = ''1'', stroke = ''red'', fill = ''none''\<rparr>,
       path = [(M, ''width/3'', ''10''), (L, ''10%'', ''height +'')]\<rparr>]
     (Fin 201) (Fin 100)"
    by code_simp
  show ?thesis
    using C8_pure_operands[OF agrees_arith_host agrees_arith_host p,
        of "Map.empty(''k'' \<mapsto> JNum (Fin 1))" Map.empty]
      p agrees_arith_host
    by simp
qed

text \<open>
  An operand with an identifier reads the global state: the same description and
  dimensions compile to different paths in two global states, here one that binds
  \<^verbatim>\<open>k\<close> to 1 and one that binds it to 2. The reference semantics is defined on
  the operand in both.
\<close>

theorem C8_reads_globals_counterexample:
  "map_option fst
     (arith_Function (operand_source ''width'' ''k+0'' (Fin 200) (Fin 100))
        (Map.empty(''k'' \<mapsto> JNum (Fin 1)))) = Some (Inr (JNum (Fin 1))) \<and>
   map_option fst
     (arith_Function (operand_source ''width'' ''k+0'' (Fin 200) (Fin 100))
        (Map.empty(''k'' \<mapsto> JNum (Fin 2)))) = Some (Inr (JNum (Fin 2))) \<and>
   fst (createSvgPaths arith_host
     [\<lparr>name = None, shown = None,
       style = \<lparr>strokeWidth = ''1'', stroke = ''red'', fill = ''none''\<rparr>,
       path = [(M, ''k+0'', ''0'')]\<rparr>]
     (Fin 200) (Fin 100) (Map.empty(''k'' \<mapsto> JNum (Fin 1)))) \<noteq>
   fst (createSvgPaths arith_host
     [\<lparr>name = None, shown = None,
       style = \<lparr>strokeWidth = ''1'', stroke = ''red'', fill = ''none''\<rparr>,
       path = [(M, ''k+0'', ''0'')]\<rparr>]
     (Fin 200) (Fin 100) (Map.empty(''k'' \<mapsto> JNum (Fin 2))))"
  by code_simp

section \<open>Properties of the scheduler\<close>

subsection \<open>One attempt to render\<close>


lemma render_commit:
  assumes "\<not> cached w (el_box w)"
  shows "commits (el (snd (render cfg w))) = Suc (commits (el w))"
    and "cached (snd (render cfg w)) (el_box w)"
    and "el_box (snd (render cfg w)) = el_box w"
  using assms
  by (auto simp: render_def createSvgElement_def cached_def Let_def split: prod.splits sum.splits)






subsection \<open>The render attached to the element\<close>




subsection \<open>The polling loops\<close>



lemma end_listener_frame:
  "el (end_listener i w) = el w" "parent_box (end_listener i w) = parent_box w"
  "frames (end_listener i w) = frames w" "settled (end_listener i w) = settled w"
  "length (running (end_listener i w)) = length (running w)"
  by (simp_all add: end_listener_def settled_def)









subsection \<open>The cache across events and sessions\<close>

lemma cache_kept_refl: "cache_kept w w"
  by (simp add: cache_kept_def)

lemma cache_kept_trans: "cache_kept a b \<Longrightarrow> cache_kept b c \<Longrightarrow> cache_kept a c"
  by (auto simp: cache_kept_def)

lemma cache_kept_el: "el w' = el w \<Longrightarrow> cache_kept w w'"
  by (simp add: cache_kept_def)

lemma render_cache_kept: "cache_kept w (snd (render cfg w))"
  by (auto simp: cache_kept_def render_def createSvgElement_def Let_def
           split: prod.splits sum.splits)

lemma loop_cache_kept: "cache_kept w (snd (loop cfg i w))"
proof (cases "running w ! i")
  case False
  then show ?thesis by (simp add: loop_def cache_kept_refl)
next
  case True
  obtain x w' where r: "render cfg w = (x, w')" by fastforce
  with render_cache_kept[of w cfg] have "cache_kept w w'" by simp
  with r True show ?thesis
    by (cases x) (simp_all add: loop_def cache_kept_def)
qed

lemma render_entries_cache_kept: "cache_kept w (render_entries cfg n w)"
proof (induction n arbitrary: w)
  case 0
  show ?case by (simp add: cache_kept_refl)
next
  case (Suc n)
  obtain x w' where r: "render cfg w = (x, w')" by fastforce
  with render_cache_kept[of w cfg] have k: "cache_kept w w'" by simp
  show ?case
  proof (cases x)
    case None
    with r k Suc.IH[of w'] show ?thesis by (auto intro: cache_kept_trans)
  next
    case (Some a)
    with r k show ?thesis by simp
  qed
qed

lemma run_frames_cache_kept: "cache_kept w (run_frames cfg q w)"
proof (induction q arbitrary: w)
  case Nil
  show ?case by (simp add: cache_kept_refl)
next
  case (Cons i q)
  from loop_cache_kept[of w cfg i] Cons.IH[of "snd (loop cfg i w)"]
  show ?case by (auto intro: cache_kept_trans)
qed

lemma fold_end_listener_el: "el (fold end_listener js w) = el w"
  by (induction js arbitrary: w) (simp_all add: end_listener_frame)

lemma start_handler_cache_kept:
  assumes "\<And>i v. el (listen i v) = el v"
  shows "cache_kept w (start_handler cfg listen w)"
proof -
  let ?w1 = "w\<lparr>running := running w @ [True]\<rparr>"
  obtain x w2 where l: "loop cfg (length (running w)) ?w1 = (x, w2)" by fastforce
  with loop_cache_kept[of ?w1 cfg "length (running w)"] have "cache_kept ?w1 w2" by simp
  then have k: "cache_kept w w2" by (simp add: cache_kept_def)
  show ?thesis
  proof (cases x)
    case None
    with l k assms show ?thesis by (simp add: start_handler_def Let_def cache_kept_def)
  next
    case (Some a)
    with l k show ?thesis by (simp add: start_handler_def Let_def)
  qed
qed

lemma step_cache_kept: "cache_kept w (step cfg ev w)"
proof (cases ev)
  case (Layout eb pb)
  then show ?thesis by (simp add: cache_kept_el)
next
  case (ResizeObserved n)
  then show ?thesis by (simp add: render_entries_cache_kept cache_kept_refl)
next
  case TransitionStart
  then show ?thesis by (simp add: start_handler_cache_kept)
next
  case TransitionEnd
  then show ?thesis by (simp add: cache_kept_el fold_end_listener_el)
next
  case AnimationStart
  then show ?thesis by (simp add: start_handler_cache_kept)
next
  case AnimationEnd
  then show ?thesis by (simp add: cache_kept_el fold_end_listener_el)
next
  case AnimationFrame
  have "cache_kept (w\<lparr>frames := []\<rparr>) (run_frames cfg (frames w) (w\<lparr>frames := []\<rparr>))"
    by (rule run_frames_cache_kept)
  with AnimationFrame show ?thesis by (simp add: cache_kept_def)
next
  case CallRender
  then show ?thesis by (simp add: render_cache_kept)
next
  case Destroy
  then show ?thesis by (simp add: cache_kept_el)
qed

text \<open>
  Claim C10, as amended. The cache is the pair of data attributes of the element.
  Setup takes the element as it finds it; the first attempt to render commits when
  one of the attributes is missing, as on a new element; an event changes the cache
  only by committing a render; and \<^verbatim>\<open>destroy()\<close> leaves the element, and so the
  cache, as it is.
\<close>

theorem C10_cache_lives_on_element:
  "el (setupSvgRenderer e g eb pb) = e \<and>
   (data_width e = None \<or> data_height e = None \<longrightarrow>
      commits (el (snd (render cfg (setupSvgRenderer e g eb pb)))) = Suc (commits e)) \<and>
   cache_kept w (step cfg ev w) \<and>
   el (step cfg Destroy w) = el w"
proof -
  have "data_width e = None \<or> data_height e = None \<longrightarrow>
      commits (el (snd (render cfg (setupSvgRenderer e g eb pb)))) = Suc (commits e)"
    using render_commit(1)[of "setupSvgRenderer e g eb pb" cfg]
    by (auto simp: cached_def setupSvgRenderer_def)
  then show ?thesis
    by (simp add: step_cache_kept) (simp add: setupSvgRenderer_def)
qed

theorem C10_cache_witness:
  "commits (el (snd (render scenario_config scenario_world))) = 1 \<and>
   cache_of (el (step scenario_config CallRender
               (run scenario_config [ResizeObserved 1] scenario_world))) =
   cache_of (el (run scenario_config [ResizeObserved 1] scenario_world))"
proof -
  let ?w = "run scenario_config [ResizeObserved 1] scenario_world"
  have a: "data_width new_element = None" "commits new_element = 0"
    by (simp_all add: new_element_def)
  have b: "commits (el (step scenario_config CallRender ?w)) = commits (el ?w)"
    by code_simp
  show ?thesis
    using C10_cache_lives_on_element[of new_element Map.empty "(Fin 200, Fin 100)"
            "(Fin 400, Fin 100)" scenario_config ?w CallRender] a b
    by (simp add: scenario_world_def cache_kept_def)
qed

text \<open>
  A first session renders at 200 by 100 and is destroyed. A second session on the
  same element starts with that cache: its first attempt to render, at the same
  dimensions, commits nothing, and the count stays 1.
\<close>

theorem C10_second_session_counterexample:
  "commits (el (run scenario_config [ResizeObserved 1, Destroy] settled_world)) = 1 \<and>
   commits (el (run scenario_config [ResizeObserved 1]
      (setupSvgRenderer
         (el (run scenario_config [ResizeObserved 1, Destroy] settled_world))
         Map.empty (Fin 200, Fin 100) (Fin 200, Fin 100)))) = 1"
  by code_simp

subsection \<open>After \<^verbatim>\<open>destroy()\<close>\<close>

lemma destroyed_ignores_resize:
  "\<not> observing w \<Longrightarrow> step cfg (ResizeObserved n) w = w"
  by simp

text \<open>
  Claim C1. \<^verbatim>\<open>destroy()\<close> disconnects the resize observer and nothing else. In the
  session of the scenario, after the first render and \<^verbatim>\<open>destroy()\<close>, the element
  grows to 300 by 100: a resize notification is no longer delivered, but a
  \<^verbatim>\<open>transitionstart\<close> on the parent renders, and so does the next frame of a
  loop that was started before \<^verbatim>\<open>destroy()\<close>. The count of commits goes from 1
  to 2 after the teardown.
\<close>

theorem C1_renders_after_destroy:
  "commits (el (run scenario_config [ResizeObserved 1, Destroy] scenario_world)) = 1 \<and>
   commits (el (run scenario_config
      [ResizeObserved 1, Destroy, Layout (Fin 300, Fin 100) (Fin 400, Fin 100),
       ResizeObserved 1] scenario_world)) = 1 \<and>
   commits (el (run scenario_config
      [ResizeObserved 1, Destroy, Layout (Fin 300, Fin 100) (Fin 400, Fin 100),
       TransitionStart] scenario_world)) = 2 \<and>
   commits (el (run scenario_config
      [ResizeObserved 1, TransitionStart, Destroy,
       Layout (Fin 300, Fin 100) (Fin 400, Fin 100), AnimationFrame] scenario_world)) = 2"
  by code_simp

end
